theory Spec2Isabelle
  imports Complex_Main
begin

section \<open>JavaScript values and errors\<close>

text \<open>
  A thrown JavaScript error: its \<open>name\<close> property (the class it is an instance of),
  its \<open>message\<close> and its optional \<open>cause\<close>.
\<close>

datatype js_error = JSError string string "js_error option"

fun error_name :: "js_error \<Rightarrow> string" where
  "error_name (JSError n m c) = n"

fun message :: "js_error \<Rightarrow> string" where
  "message (JSError n m c) = m"

text \<open>\<open>new Error(msg)\<close>\<close>

definition Error :: "string \<Rightarrow> js_error" where
  "Error msg = JSError ''Error'' msg None"

text \<open>\<open>new JSONFileError(msg, cause)\<close> of utils/json.ts; the constructor sets the name.\<close>

definition JSONFileError :: "string \<Rightarrow> js_error option \<Rightarrow> js_error" where
  "JSONFileError msg cause = JSError ''JSONFileError'' msg cause"

text \<open>
  An error raised by the runtime itself (a \<open>TypeError\<close>, a \<open>SyntaxError\<close>, a failed
  system call). Its message text belongs to the runtime; the model uses the error code
  in its place.
\<close>

definition RuntimeError :: "string \<Rightarrow> string \<Rightarrow> js_error" where
  "RuntimeError nm code = JSError nm code None"

text \<open>
  A timestamp is the clock reading that \<open>new Date().toISOString()\<close> prints. A method is
  given the reading of the clock at its call; the readings it takes during one call
  are that one.
\<close>

type_synonym timestamp = nat

section \<open>The checkpoint document (utils/checkpoint.ts)\<close>

datatype ProcessingStage = RAW_EXPORT | ENRICHMENT | CLUSTERING | FINAL_MERGE

datatype StageStatus = NOT_STARTED | IN_PROGRESS | COMPLETED | FAILED

record StageProgress =
  status :: StageStatus
  processedNoteIds :: "string list"
  failedNoteIds :: "string list"
  startTime :: "timestamp option"
  completionTime :: "timestamp option"
  lastProcessedTime :: "timestamp option"
  error :: "string option"

record CheckpointMetadata =
  version :: string
  totalNotes :: int
  stages :: "ProcessingStage \<Rightarrow> StageProgress"
  createdAt :: timestamp
  lastUpdated :: timestamp

text \<open>
  The values that reach \<open>writeJSON\<close> at run time. TypeScript's \<open>any\<close> (the result of
  \<open>JSON.parse\<close>) lets either kind stand where the signature says \<open>string\<close>.
\<close>

datatype jsvalue = JString string | JDocument CheckpointMetadata

text \<open>Template-literal conversion \<open>`${v}`\<close>: a plain object prints as \<open>[object Object]\<close>.\<close>

fun to_string :: "jsvalue \<Rightarrow> string" where
  "to_string (JString s) = s"
| "to_string (JDocument m) = ''[object Object]''"

section \<open>The file system\<close>

text \<open>
  A file holds the JSON text of a value (\<open>JSON.stringify\<close>, indented or not), or text
  that \<open>JSON.parse\<close> rejects.
\<close>

datatype file_content = JsonText bool jsvalue | NotJson

datatype fs_call =
    WriteFile string file_content
  | Rename string string
  | Unlink string
  | Mkdir string

text \<open>
  \<open>files\<close> and \<open>dirs\<close> are what exists, under normalized paths; \<open>denied\<close> are the paths
  at which the operating system refuses to create or replace an entry (permissions,
  full disk); \<open>fs_log\<close> lists the mutations performed, oldest first, with the paths as
  they were passed.
\<close>

record world =
  files :: "string \<rightharpoonup> file_content"
  dirs :: "string set"
  denied :: "string set"
  fs_log :: "fs_call list"

text \<open>
  The paths of the configuration are relative and written both with and without a
  leading \<open>./\<close> (\<open>./data\<close>, and \<open>path.join('./data', 'checkpoint.json')\<close>, which is
  \<open>data/checkpoint.json\<close>): the file system sees them without it.
\<close>

definition normalize :: "string \<Rightarrow> string" where
  "normalize p = (if take 2 p = ''./'' then drop 2 p else p)"

text \<open>
  The directories above a path: what stands before each of its slashes (the root
  apart), outermost first, \<open>seen\<close> being the part already read.
\<close>

fun parents :: "string \<Rightarrow> string \<Rightarrow> string list" where
  "parents seen [] = []"
| "parents seen (c # cs) =
     (if c = CHR ''/'' \<and> seen \<noteq> [] then seen # parents (seen @ [c]) cs
      else parents (seen @ [c]) cs)"

text \<open>
  The directory an entry is created in; \<open>None\<close> stands for the working directory or the
  root, which exist.
\<close>

definition dirname :: "string \<Rightarrow> string option" where
  "dirname p = (case parents [] p of [] \<Rightarrow> None | d # ds \<Rightarrow> Some (last (d # ds)))"

definition parent_exists :: "string \<Rightarrow> world \<Rightarrow> bool" where
  "parent_exists p w = (case dirname p of None \<Rightarrow> True | Some d \<Rightarrow> d \<in> dirs w)"

text \<open>\<open>access(path, F_OK)\<close> succeeds for any existing entry.\<close>

definition access :: "string \<Rightarrow> world \<Rightarrow> bool" where
  "access p w = (normalize p \<in> dirs w \<or> files w (normalize p) \<noteq> None)"

text \<open>
  \<open>fs/promises.writeFile(path, data, options)\<close>. A path that is neither a string, a
  Buffer, a URL nor a file handle is rejected with a \<open>TypeError\<close> before anything is
  opened. Otherwise the file is created or replaced in place, in a directory that
  exists.
\<close>

fun writeFile :: "jsvalue \<Rightarrow> file_content \<Rightarrow> world \<Rightarrow> (js_error + unit) \<times> world" where
  "writeFile (JDocument m) text w = (Inl (RuntimeError ''TypeError'' ''ERR_INVALID_ARG_TYPE''), w)"
| "writeFile (JString p) text w =
     (if normalize p \<in> dirs w then (Inl (RuntimeError ''Error'' ''EISDIR''), w)
      else if \<not> parent_exists (normalize p) w then (Inl (RuntimeError ''Error'' ''ENOENT''), w)
      else if normalize p \<in> denied w then (Inl (RuntimeError ''Error'' ''EACCES''), w)
      else (Inr (), w\<lparr>files := (files w)(normalize p \<mapsto> text),
                       fs_log := fs_log w @ [WriteFile p text]\<rparr>))"



text \<open>
  \<open>mkdir(path, { recursive })\<close>: with \<open>recursive\<close> the missing directories above the path
  are created too and an existing directory is no error; without it the directory
  above must exist and the path must not.
\<close>

definition mkdir :: "string \<Rightarrow> bool \<Rightarrow> world \<Rightarrow> (js_error + unit) \<times> world" where
  "mkdir p recursive w =
     (if normalize p \<in> denied w then (Inl (RuntimeError ''Error'' ''EACCES''), w)
      else if files w (normalize p) \<noteq> None then (Inl (RuntimeError ''Error'' ''EEXIST''), w)
      else if normalize p \<in> dirs w then
        (if recursive then (Inr (), w) else (Inl (RuntimeError ''Error'' ''EEXIST''), w))
      else if recursive then
        (Inr (), w\<lparr>dirs := insert (normalize p) (set (parents [] (normalize p)) \<union> dirs w),
                    fs_log := fs_log w @ [Mkdir p]\<rparr>)
      else if \<not> parent_exists (normalize p) w then (Inl (RuntimeError ''Error'' ''ENOENT''), w)
      else (Inr (), w\<lparr>dirs := insert (normalize p) (dirs w), fs_log := fs_log w @ [Mkdir p]\<rparr>))"

section \<open>utils/paths.ts and utils/directory.ts\<close>

definition fileExists :: "string \<Rightarrow> world \<Rightarrow> bool" where
  "fileExists filePath w = access filePath w"

definition directoryExists :: "string \<Rightarrow> world \<Rightarrow> bool" where
  "directoryExists dirPath w = access dirPath w"

text \<open>\<open>ensureDirectory(dirPath, recursive = true)\<close>\<close>

definition ensureDirectory :: "string \<Rightarrow> bool \<Rightarrow> world \<Rightarrow> (js_error + unit) \<times> world" where
  "ensureDirectory dirPath recursive w =
     (if \<not> directoryExists dirPath w then
        (case mkdir dirPath recursive w of
           (Inl e, w') \<Rightarrow>
             (Inl (Error (''Failed to create directory '' @ dirPath @ '': '' @ message e)), w')
         | (Inr u, w') \<Rightarrow> (Inr (), w'))
      else (Inr (), w))"

section \<open>utils/json.ts\<close>

definition readJSON :: "string \<Rightarrow> world \<Rightarrow> js_error + jsvalue" where
  "readJSON filePath w =
     (if normalize filePath \<in> dirs w then
        Inl (JSONFileError (''Error reading JSON file '' @ filePath @ '': '' @ ''EISDIR'')
               (Some (RuntimeError ''Error'' ''EISDIR'')))
      else case files w (normalize filePath) of
        None \<Rightarrow> Inl (JSONFileError (''File not found: '' @ filePath) None)
      | Some NotJson \<Rightarrow>
          Inl (JSONFileError (''Invalid JSON in file: '' @ filePath)
                 (Some (RuntimeError ''SyntaxError'' ''Unexpected token'')))
      | Some (JsonText pretty v) \<Rightarrow> Inr v)"

text \<open>\<open>writeJSON(data, filePath, pretty = true)\<close>: data first, path second.\<close>

definition writeJSON :: "jsvalue \<Rightarrow> jsvalue \<Rightarrow> bool \<Rightarrow> world \<Rightarrow> (js_error + unit) \<times> world" where
  "writeJSON data filePath pretty w =
     (let jsonString = JsonText pretty data in
      case writeFile filePath jsonString w of
        (Inl e, w') \<Rightarrow>
          (Inl (JSONFileError
                  (''Error writing JSON to file '' @ to_string filePath @ '': '' @ message e)
                  (Some e)), w')
      | (Inr u, w') \<Rightarrow> (Inr (), w'))"


section \<open>CheckpointManager\<close>

definition CHECKPOINT_DIRECTORY :: string where
  "CHECKPOINT_DIRECTORY = ''./data''"

definition CHECKPOINT_FULL_PATH :: string where
  "CHECKPOINT_FULL_PATH = ''data/checkpoint.json''"

text \<open>
  The manager's private field \<open>metadata\<close> (\<open>null\<close> is \<open>None\<close>) together with the file
  system it writes to. The field is declared \<open>CheckpointMetadata | null\<close>, but what
  \<open>initialize\<close> assigns is whatever \<open>readJSON\<close> parsed, cast without a check: here a
  document or a string. A method returns what it returns or throws, and the state it
  leaves behind: assignments made before a \<open>throw\<close> stay.
\<close>

record system =
  metadata :: "jsvalue option"
  fs :: world

type_synonym 'a outcome = "(js_error + 'a) \<times> system"

definition not_initialized :: js_error where
  "not_initialized = Error ''Checkpoint metadata not initialized''"

text \<open>
  The two errors of the runtime on a field that holds a string: reading a property of
  \<open>undefined\<close> (\<open>this.metadata.stages[stage]\<close>, where a string has no \<open>stages\<close>), and
  assigning a property of a primitive in strict mode.
\<close>

definition undefined_property :: js_error where
  "undefined_property = RuntimeError ''TypeError'' ''Cannot read properties of undefined''"

definition primitive_property :: js_error where
  "primitive_property = RuntimeError ''TypeError'' ''Cannot create property on string''"

text \<open>
  \<open>saveMetadata\<close>, as written: \<open>writeJSON(CHECKPOINT_CONFIG.FULL_PATH, <copy of metadata>)\<close>,
  the path in the position of \<open>data\<close> and the document in the position of \<open>filePath\<close>.
  The guard \<open>!this.metadata\<close> holds of \<open>null\<close> and of the empty string.
\<close>

definition saveMetadata :: "timestamp \<Rightarrow> system \<Rightarrow> unit outcome" where
  "saveMetadata now s =
     (case metadata s of
        None \<Rightarrow> (Inl not_initialized, s)
      | Some (JString str) \<Rightarrow>
          if str = [] then (Inl not_initialized, s) else (Inl primitive_property, s)
      | Some (JDocument m) \<Rightarrow>
          (let m' = m\<lparr>lastUpdated := now\<rparr> in
           case writeJSON (JString CHECKPOINT_FULL_PATH) (JDocument m') True (fs s) of
             (r, w') \<Rightarrow> (r, s\<lparr>metadata := Some (JDocument m'), fs := w'\<rparr>)))"

definition new_stage :: StageProgress where
  "new_stage = \<lparr>status = NOT_STARTED, processedNoteIds = [], failedNoteIds = [],
                startTime = None, completionTime = None, lastProcessedTime = None,
                error = None\<rparr>"

definition new_metadata :: "int \<Rightarrow> timestamp \<Rightarrow> CheckpointMetadata" where
  "new_metadata n now =
     \<lparr>version = ''1.0.0'', totalNotes = n, stages = (\<lambda>stage. new_stage),
      createdAt = now, lastUpdated = now\<rparr>"

text \<open>The \<open>catch\<close> of \<open>initialize\<close>: a \<open>JSONFileError\<close> is rewrapped, anything else rethrown.\<close>

definition initialize_catch :: "js_error \<Rightarrow> js_error" where
  "initialize_catch e =
     (if error_name e = ''JSONFileError''
      then Error (''Failed to initialize checkpoint: '' @ message e)
      else e)"

text \<open>
  \<open>initialize(totalNotes)\<close>. What \<open>readJSON\<close> returns is assigned to the field first. Of
  a string, \<open>this.metadata.totalNotes\<close> is \<open>undefined\<close>, which differs from any number, and
  the assignment \<open>this.metadata.totalNotes = totalNotes\<close> that follows throws; the string
  stays in the field.
\<close>

definition initialize :: "int \<Rightarrow> timestamp \<Rightarrow> system \<Rightarrow> unit outcome" where
  "initialize n now s =
     (case ensureDirectory CHECKPOINT_DIRECTORY True (fs s) of
        (Inl e, w) \<Rightarrow> (Inl (initialize_catch e), s\<lparr>fs := w\<rparr>)
      | (Inr u, w) \<Rightarrow>
          (let s1 = s\<lparr>fs := w\<rparr> in
           if fileExists CHECKPOINT_FULL_PATH w then
             (case readJSON CHECKPOINT_FULL_PATH w of
                Inl e \<Rightarrow> (Inl (initialize_catch e), s1)
              | Inr (JString str) \<Rightarrow>
                  (Inl (initialize_catch primitive_property), s1\<lparr>metadata := Some (JString str)\<rparr>)
              | Inr (JDocument m) \<Rightarrow>
                  if totalNotes m \<noteq> n then
                    (case saveMetadata now (s1\<lparr>metadata := Some (JDocument (m\<lparr>totalNotes := n\<rparr>))\<rparr>) of
                       (Inl e, s2) \<Rightarrow> (Inl (initialize_catch e), s2)
                     | (Inr u', s2) \<Rightarrow> (Inr (), s2))
                  else (Inr (), s1\<lparr>metadata := Some (JDocument m)\<rparr>))
           else
             (case saveMetadata now (s1\<lparr>metadata := Some (JDocument (new_metadata n now))\<rparr>) of
                (Inl e, s2) \<Rightarrow> (Inl (initialize_catch e), s2)
              | (Inr u', s2) \<Rightarrow> (Inr (), s2))))"

text \<open>\<open>stageProgress\<close> is a reference into the document: assigning its fields changes the document.\<close>

definition set_stage :: "ProcessingStage \<Rightarrow> StageProgress \<Rightarrow> CheckpointMetadata \<Rightarrow> CheckpointMetadata" where
  "set_stage stage sp m = m\<lparr>stages := (stages m)(stage := sp)\<rparr>"

text \<open>
  Every public method starts with the guard \<open>if (!this.metadata) throw ...\<close> and then
  reads \<open>this.metadata.stages[stage]\<close>: on \<open>null\<close> and on the empty string the guard
  throws, on any other string the read does.
\<close>

definition startStage :: "ProcessingStage \<Rightarrow> timestamp \<Rightarrow> system \<Rightarrow> unit outcome" where
  "startStage stage now s =
     (case metadata s of
        None \<Rightarrow> (Inl not_initialized, s)
      | Some (JString str) \<Rightarrow>
          if str = [] then (Inl not_initialized, s) else (Inl undefined_property, s)
      | Some (JDocument m) \<Rightarrow>
          (let stageProgress = stages m stage in
           if status stageProgress = IN_PROGRESS then (Inr (), s)
           else
             saveMetadata now
               (s\<lparr>metadata := Some (JDocument (set_stage stage
                    (stageProgress\<lparr>status := IN_PROGRESS, startTime := Some now, error := None\<rparr>) m))\<rparr>)))"

text \<open>\<open>Array.prototype.includes\<close> and \<open>push\<close> on the id arrays.\<close>

definition array_includes :: "string list \<Rightarrow> string \<Rightarrow> bool" where
  "array_includes xs x = (x \<in> set xs)"

definition array_push :: "string list \<Rightarrow> string \<Rightarrow> string list" where
  "array_push xs x = xs @ [x]"

definition updateNoteProgress ::
  "ProcessingStage \<Rightarrow> string \<Rightarrow> bool \<Rightarrow> timestamp \<Rightarrow> system \<Rightarrow> unit outcome" where
  "updateNoteProgress stage noteId success now s =
     (case metadata s of
        None \<Rightarrow> (Inl not_initialized, s)
      | Some (JString str) \<Rightarrow>
          if str = [] then (Inl not_initialized, s) else (Inl undefined_property, s)
      | Some (JDocument m) \<Rightarrow>
          (let stageProgress = stages m stage;
               sp1 =
                 (if success then
                    (if \<not> array_includes (processedNoteIds stageProgress) noteId
                     then stageProgress\<lparr>processedNoteIds := array_push (processedNoteIds stageProgress) noteId\<rparr>
                     else stageProgress)
                  else
                    (if \<not> array_includes (failedNoteIds stageProgress) noteId
                     then stageProgress\<lparr>failedNoteIds := array_push (failedNoteIds stageProgress) noteId\<rparr>
                     else stageProgress));
               sp2 = sp1\<lparr>lastProcessedTime := Some now\<rparr>
           in saveMetadata now (s\<lparr>metadata := Some (JDocument (set_stage stage sp2 m))\<rparr>)))"

definition completeStage :: "ProcessingStage \<Rightarrow> timestamp \<Rightarrow> system \<Rightarrow> unit outcome" where
  "completeStage stage now s =
     (case metadata s of
        None \<Rightarrow> (Inl not_initialized, s)
      | Some (JString str) \<Rightarrow>
          if str = [] then (Inl not_initialized, s) else (Inl undefined_property, s)
      | Some (JDocument m) \<Rightarrow>
          (let stageProgress = stages m stage in
           saveMetadata now
             (s\<lparr>metadata := Some (JDocument (set_stage stage
                  (stageProgress\<lparr>status := COMPLETED, completionTime := Some now\<rparr>) m))\<rparr>)))"

definition failStage :: "ProcessingStage \<Rightarrow> string \<Rightarrow> timestamp \<Rightarrow> system \<Rightarrow> unit outcome" where
  "failStage stage err now s =
     (case metadata s of
        None \<Rightarrow> (Inl not_initialized, s)
      | Some (JString str) \<Rightarrow>
          if str = [] then (Inl not_initialized, s) else (Inl undefined_property, s)
      | Some (JDocument m) \<Rightarrow>
          (let stageProgress = stages m stage in
           saveMetadata now
             (s\<lparr>metadata := Some (JDocument (set_stage stage
                  (stageProgress\<lparr>status := FAILED, error := Some err\<rparr>) m))\<rparr>)))"

definition getStageProgress :: "ProcessingStage \<Rightarrow> system \<Rightarrow> StageProgress outcome" where
  "getStageProgress stage s =
     (case metadata s of
        None \<Rightarrow> (Inl not_initialized, s)
      | Some (JString str) \<Rightarrow>
          if str = [] then (Inl not_initialized, s) else (Inl undefined_property, s)
      | Some (JDocument m) \<Rightarrow> (Inr (stages m stage), s))"

text \<open>
  A JavaScript number that a division can produce. The quotient is kept exact (a
  rational) where the source rounds to a double.
\<close>

datatype js_number = Finite rat | PosInfinity | NegInfinity | NaN

definition js_divide :: "int \<Rightarrow> int \<Rightarrow> js_number" where
  "js_divide a b =
     (if b = 0 then (if a = 0 then NaN else if 0 < a then PosInfinity else NegInfinity)
      else Finite (of_int a / of_int b))"

fun js_times :: "js_number \<Rightarrow> int \<Rightarrow> js_number" where
  "js_times (Finite q) k = Finite (q * of_int k)"
| "js_times PosInfinity k = (if k = 0 then NaN else if 0 < k then PosInfinity else NegInfinity)"
| "js_times NegInfinity k = (if k = 0 then NaN else if 0 < k then NegInfinity else PosInfinity)"
| "js_times NaN k = NaN"

definition getStageProgressPercentage :: "ProcessingStage \<Rightarrow> system \<Rightarrow> js_number outcome" where
  "getStageProgressPercentage stage s =
     (case metadata s of
        None \<Rightarrow> (Inl not_initialized, s)
      | Some (JString str) \<Rightarrow>
          if str = [] then (Inl not_initialized, s) else (Inl undefined_property, s)
      | Some (JDocument m) \<Rightarrow>
          (let stageProgress = stages m stage;
               processed = int (length (processedNoteIds stageProgress))
           in (Inr (js_times (js_divide processed (totalNotes m)) 100), s)))"

text \<open>\<open>i.toString()\<close> of a non-negative integer index: its decimal digits.\<close>

definition digit :: "nat \<Rightarrow> char" where
  "digit d = ''0123456789'' ! d"

function toString :: "nat \<Rightarrow> string" where
  "toString i = (if i < 10 then [digit i] else toString (i div 10) @ [digit (i mod 10)])"
  by pat_completeness auto
termination
  by (relation "measure (\<lambda>i. i)") auto

text \<open>
  The \<open>for\<close> loop of \<open>getNextNoteForStage\<close>, entered at index \<open>i\<close>; \<open>None\<close> is the
  \<open>null\<close> returned after the loop.
\<close>

function next_note_loop :: "int \<Rightarrow> StageProgress \<Rightarrow> nat \<Rightarrow> string option" where
  "next_note_loop n stageProgress i =
     (if int i < n then
        (let noteId = toString i in
         if \<not> array_includes (processedNoteIds stageProgress) noteId \<and>
            \<not> array_includes (failedNoteIds stageProgress) noteId
         then Some noteId
         else next_note_loop n stageProgress (Suc i))
      else None)"
  by pat_completeness auto
termination
  by (relation "measure (\<lambda>(n, stageProgress, i). nat n - i)") auto

definition getNextNoteForStage :: "ProcessingStage \<Rightarrow> system \<Rightarrow> string option outcome" where
  "getNextNoteForStage stage s =
     (case metadata s of
        None \<Rightarrow> (Inl not_initialized, s)
      | Some (JString str) \<Rightarrow>
          if str = [] then (Inl not_initialized, s) else (Inl undefined_property, s)
      | Some (JDocument m) \<Rightarrow> (Inr (next_note_loop (totalNotes m) (stages m stage) 0), s))"

definition isStageComplete :: "ProcessingStage \<Rightarrow> system \<Rightarrow> bool outcome" where
  "isStageComplete stage s =
     (case metadata s of
        None \<Rightarrow> (Inl not_initialized, s)
      | Some (JString str) \<Rightarrow>
          if str = [] then (Inl not_initialized, s) else (Inl undefined_property, s)
      | Some (JDocument m) \<Rightarrow> (Inr (status (stages m stage) = COMPLETED), s))"

text \<open>
  \<open>getMetadata\<close> returns the spread \<open>{ ...this.metadata }\<close>: a copy of the document, and of
  a string the object of its characters.
\<close>

datatype metadata_copy = DocumentCopy CheckpointMetadata | CharactersCopy string

definition getMetadata :: "system \<Rightarrow> metadata_copy outcome" where
  "getMetadata s =
     (case metadata s of
        None \<Rightarrow> (Inl not_initialized, s)
      | Some (JString str) \<Rightarrow>
          if str = [] then (Inl not_initialized, s) else (Inr (CharactersCopy str), s)
      | Some (JDocument m) \<Rightarrow> (Inr (DocumentCopy m), s))"

text \<open>
  A caller's sequence of mutating calls, each with the clock reading at which it runs.
  The caller catches what a call throws and goes on; a caller that stops at the first
  throw reaches the state of a prefix.
\<close>

datatype call =
    StartStage ProcessingStage
  | UpdateNoteProgress ProcessingStage string bool
  | CompleteStage ProcessingStage
  | FailStage ProcessingStage string

fun perform :: "call \<Rightarrow> timestamp \<Rightarrow> system \<Rightarrow> unit outcome" where
  "perform (StartStage stage) now s = startStage stage now s"
| "perform (UpdateNoteProgress stage noteId success) now s = updateNoteProgress stage noteId success now s"
| "perform (CompleteStage stage) now s = completeStage stage now s"
| "perform (FailStage stage err) now s = failStage stage err now s"

fun run_calls :: "(timestamp \<times> call) list \<Rightarrow> system \<Rightarrow> system" where
  "run_calls [] s = s"
| "run_calls ((now, c) # cs) s = run_calls cs (snd (perform c now s))"

text \<open>The ids that a sequence of calls reports for a stage with a given outcome.\<close>

fun reported :: "ProcessingStage \<Rightarrow> bool \<Rightarrow> (timestamp \<times> call) list \<Rightarrow> string list" where
  "reported stage success [] = []"
| "reported stage success ((now, UpdateNoteProgress stage' noteId success') # cs) =
     (if stage' = stage \<and> success' = success then noteId # reported stage success cs
      else reported stage success cs)"
| "reported stage success ((now, c) # cs) = reported stage success cs"

section \<open>OpenAIService (services/openai.ts)\<close>

datatype api_type = COMPLETIONS | EMBEDDINGS

fun TOKENS_PER_MINUTE :: "api_type \<Rightarrow> int" where
  "TOKENS_PER_MINUTE COMPLETIONS = 90000"
| "TOKENS_PER_MINUTE EMBEDDINGS = 150000"

definition MAX_RETRIES :: nat where
  "MAX_RETRIES = 3"

definition INITIAL_RETRY_DELAY :: int where
  "INITIAL_RETRY_DELAY = 1000"

definition MAX_RETRY_DELAY :: int where
  "MAX_RETRY_DELAY = 8000"

definition BACKOFF_FACTOR :: int where
  "BACKOFF_FACTOR = 2"

text \<open>The numeric fields of the service; the client and the model names play no part here.\<close>

record OpenAIService =
  maxRetries :: nat
  completionsTokens :: int
  embeddingsTokens :: int
  lastCompletionTime :: int
  lastEmbeddingTime :: int

text \<open>The constructor: \<open>config.maxRetries || RETRY_CONFIG.MAX_RETRIES\<close>, where 0 and undefined are falsy.\<close>

definition new_OpenAIService :: "nat option \<Rightarrow> OpenAIService" where
  "new_OpenAIService cfg =
     \<lparr>maxRetries = (case cfg of None \<Rightarrow> MAX_RETRIES | Some k \<Rightarrow> if k = 0 then MAX_RETRIES else k),
      completionsTokens = 0, embeddingsTokens = 0,
      lastCompletionTime = 0, lastEmbeddingTime = 0\<rparr>"

text \<open>
  What a call of the service does that an observer sees, in order: entering the rate
  limiter with a token estimate, sleeping for some milliseconds, invoking the wrapped
  operation at a retry count.
\<close>

datatype event = RateLimit api_type int | Sleep int | Invoke nat

definition reset_tokens :: "api_type \<Rightarrow> OpenAIService \<Rightarrow> OpenAIService" where
  "reset_tokens type this =
     (if type = COMPLETIONS then this\<lparr>completionsTokens := 0\<rparr> else this\<lparr>embeddingsTokens := 0\<rparr>)"

definition token_count :: "api_type \<Rightarrow> OpenAIService \<Rightarrow> int" where
  "token_count type this = (if type = COMPLETIONS then completionsTokens this else embeddingsTokens this)"

definition last_time :: "api_type \<Rightarrow> OpenAIService \<Rightarrow> int" where
  "last_time type this = (if type = COMPLETIONS then lastCompletionTime this else lastEmbeddingTime this)"

text \<open>
  \<open>handleRateLimit(type, tokens)\<close> at clock reading \<open>now\<close>. \<open>tokenCount\<close> and \<open>lastTime\<close>
  are read once, at entry, before the reset of an elapsed window.
\<close>

definition handleRateLimit :: "api_type \<Rightarrow> int \<Rightarrow> int \<Rightarrow> OpenAIService \<Rightarrow> event list \<times> OpenAIService" where
  "handleRateLimit type tokens now this =
     (let limit = TOKENS_PER_MINUTE type;
          lastTime = last_time type this;
          tokenCount = token_count type this;
          this1 = (if now - lastTime \<ge> 60000 then reset_tokens type this else this);
          (slept, this2) =
            (if tokenCount + tokens > limit
             then ([Sleep (60000 - (now - lastTime))], reset_tokens type this1)
             else ([], this1));
          this3 =
            (if type = COMPLETIONS
             then this2\<lparr>completionsTokens := completionsTokens this2 + tokens, lastCompletionTime := now\<rparr>
             else this2\<lparr>embeddingsTokens := embeddingsTokens this2 + tokens, lastEmbeddingTime := now\<rparr>)
      in (RateLimit type tokens # slept, this3))"

definition retry_delay :: "nat \<Rightarrow> int" where
  "retry_delay retryCount = min (INITIAL_RETRY_DELAY * BACKOFF_FACTOR ^ retryCount) MAX_RETRY_DELAY"

text \<open>
  \<open>retryWithExponentialBackoff(operation, retryCount = 0)\<close>. The wrapped operation is an
  effect whose outcome may differ from one invocation to the next: \<open>operation k\<close> is
  what the invocation made at retry count \<open>k\<close> returns (\<open>Inr\<close>) or throws (\<open>Inl\<close>).
\<close>

function retryWithExponentialBackoff ::
  "OpenAIService \<Rightarrow> (nat \<Rightarrow> js_error + 'a) \<Rightarrow> nat \<Rightarrow> (js_error + 'a) \<times> event list" where
  "retryWithExponentialBackoff this operation retryCount =
     (case operation retryCount of
        Inr v \<Rightarrow> (Inr v, [Invoke retryCount])
      | Inl e \<Rightarrow>
          if retryCount \<ge> maxRetries this then (Inl e, [Invoke retryCount])
          else
            (let delay = retry_delay retryCount;
                 (r, tr) = retryWithExponentialBackoff this operation (retryCount + 1)
             in (r, Invoke retryCount # Sleep delay # tr)))"
  by pat_completeness auto
termination
  by (relation "measure (\<lambda>(this, operation, retryCount). maxRetries this - retryCount)") auto

definition estimateTokens :: "string \<Rightarrow> int" where
  "estimateTokens text = int ((length text + 3) div 4)"

text \<open>\<open>response.choices[0]?.message?.content || ''\<close>\<close>

definition content_or_empty :: "string option \<Rightarrow> string" where
  "content_or_empty c = (case c of None \<Rightarrow> [] | Some t \<Rightarrow> t)"

text \<open>
  \<open>generateSummary(content)\<close>. \<open>api k\<close> is the outcome of the completion request issued at
  retry count \<open>k\<close>: the content of the first choice, if the response has one.
\<close>

definition generateSummary ::
  "string \<Rightarrow> int \<Rightarrow> (nat \<Rightarrow> js_error + string option) \<Rightarrow> OpenAIService
     \<Rightarrow> (js_error + string) \<times> event list \<times> OpenAIService" where
  "generateSummary content now api this =
     (let estimatedTokens = estimateTokens content + 100;
          (tr1, this1) = handleRateLimit COMPLETIONS estimatedTokens now this;
          (r, tr2) = retryWithExponentialBackoff this1
                       (\<lambda>k. case api k of
                               Inl e \<Rightarrow> Inl e
                             | Inr c \<Rightarrow> Inr (content_or_empty c)) 0
      in (r, tr1 @ tr2, this1))"

section \<open>Observations and example inputs\<close>

text \<open>An empty disk, and \<open>new CheckpointManager()\<close> on a given disk: \<open>metadata\<close> is \<open>null\<close>.\<close>

definition empty_world :: world where
  "empty_world = \<lparr>files = Map.empty, dirs = {}, denied = {}, fs_log = []\<rparr>"

definition new_CheckpointManager :: "world \<Rightarrow> system" where
  "new_CheckpointManager w = \<lparr>metadata = None, fs = w\<rparr>"

text \<open>The document the field holds, when it holds one, and the progress record of a stage in it.\<close>

definition document :: "system \<Rightarrow> CheckpointMetadata option" where
  "document s = (case metadata s of Some (JDocument m) \<Rightarrow> Some m | _ \<Rightarrow> None)"

definition stage_of :: "ProcessingStage \<Rightarrow> system \<Rightarrow> StageProgress option" where
  "stage_of stage s = (case document s of None \<Rightarrow> None | Some m \<Rightarrow> Some (stages m stage))"

text \<open>An index is settled when its decimal string is in one of the two id arrays.\<close>

definition settled :: "StageProgress \<Rightarrow> nat \<Rightarrow> bool" where
  "settled sp i =
     (toString i \<in> set (processedNoteIds sp) \<or> toString i \<in> set (failedNoteIds sp))"

text \<open>
  The manager of the worked scenario: three notes on an empty disk, the stage started,
  note 0 reported processed and note 1 reported failed.
\<close>

definition three_notes :: system where
  "three_notes = snd (initialize 3 0 (new_CheckpointManager empty_world))"

definition scenario :: system where
  "scenario =
     run_calls
       [(1, StartStage RAW_EXPORT),
        (2, UpdateNoteProgress RAW_EXPORT ''0'' True),
        (3, UpdateNoteProgress RAW_EXPORT ''1'' False)]
       three_notes"

text \<open>The scenario's manager after \<open>completeStage(RAW_EXPORT)\<close>.\<close>

definition completed_scenario :: system where
  "completed_scenario = snd (completeStage RAW_EXPORT 4 scenario)"

text \<open>
  What \<open>saveMetadata\<close> throws when \<open>writeFile\<close> rejects the document it is given as
  a path.
\<close>

definition save_error :: js_error where
  "save_error =
     JSONFileError ''Error writing JSON to file [object Object]: ERR_INVALID_ARG_TYPE''
       (Some (RuntimeError ''TypeError'' ''ERR_INVALID_ARG_TYPE''))"


text \<open>What a trace of the service holds: the sleeps, the invocations, the rate-limit checks.\<close>

fun sleeps :: "event list \<Rightarrow> int list" where
  "sleeps [] = []"
| "sleeps (Sleep ms # tr) = ms # sleeps tr"
| "sleeps (ev # tr) = sleeps tr"

fun invocations :: "event list \<Rightarrow> nat list" where
  "invocations [] = []"
| "invocations (Invoke k # tr) = k # invocations tr"
| "invocations (ev # tr) = invocations tr"

fun rate_limit_checks :: "event list \<Rightarrow> event list" where
  "rate_limit_checks [] = []"
| "rate_limit_checks (RateLimit type tokens # tr) = RateLimit type tokens # rate_limit_checks tr"
| "rate_limit_checks (ev # tr) = rate_limit_checks tr"

text \<open>
  The trace of a retry loop entered at retry count \<open>rc\<close> that sleeps \<open>n\<close> times: each
  failed invocation is followed by its backoff sleep, the last invocation by nothing.
\<close>

definition backoff_trace :: "nat \<Rightarrow> nat \<Rightarrow> event list" where
  "backoff_trace rc n =
     concat (map (\<lambda>k. [Invoke k, Sleep (retry_delay k)]) [rc..<rc + n]) @ [Invoke (rc + n)]"





text \<open>Two behaviours of the remote service: every request rejected; the first rejected, the next answered.\<close>

fun always_rejected :: "nat \<Rightarrow> js_error + unit" where
  "always_rejected k = Inl (JSError ''RateLimitError'' ''429 Too Many Requests'' None)"

fun rejected_once :: "nat \<Rightarrow> js_error + string option" where
  "rejected_once k =
     (if k = 0 then Inl (JSError ''APIConnectionError'' ''Connection error.'' None)
      else Inr (Some ''A short summary.''))"

section \<open>The retry loop\<close>

declare retryWithExponentialBackoff.simps [simp del]

lemma retry_returns:
  "operation rc = Inr v \<Longrightarrow> retryWithExponentialBackoff this operation rc = (Inr v, [Invoke rc])"
  by (simp add: retryWithExponentialBackoff.simps[of this operation rc])

lemma retry_gives_up:
  "operation rc = Inl e \<Longrightarrow> maxRetries this \<le> rc \<Longrightarrow>
   retryWithExponentialBackoff this operation rc = (Inl e, [Invoke rc])"
  by (simp add: retryWithExponentialBackoff.simps[of this operation rc])

lemma retry_again:
  "operation rc = Inl e \<Longrightarrow> rc < maxRetries this \<Longrightarrow>
   retryWithExponentialBackoff this operation rc =
     (fst (retryWithExponentialBackoff this operation (Suc rc)),
      Invoke rc # Sleep (retry_delay rc) # snd (retryWithExponentialBackoff this operation (Suc rc)))"
  by (simp add: retryWithExponentialBackoff.simps[of this operation rc] split_beta)

lemma backoff_trace_0: "backoff_trace rc 0 = [Invoke rc]"
  by (simp add: backoff_trace_def)

lemma backoff_trace_Suc:
  "backoff_trace rc (Suc n) = Invoke rc # Sleep (retry_delay rc) # backoff_trace (Suc rc) n"
  by (simp add: backoff_trace_def upt_rec[of rc])

lemma sleeps_backoff_trace: "sleeps (backoff_trace rc n) = map retry_delay [rc..<rc + n]"
proof (induction n arbitrary: rc)
  case 0
  show ?case by (simp add: backoff_trace_0)
next
  case (Suc n)
  show ?case using Suc[of "Suc rc"] by (simp add: backoff_trace_Suc upt_rec[of rc])
qed

lemma invocations_backoff_trace: "invocations (backoff_trace rc n) = [rc..<Suc (rc + n)]"
proof (induction n arbitrary: rc)
  case 0
  show ?case by (simp add: backoff_trace_0)
next
  case (Suc n)
  show ?case using Suc[of "Suc rc"] by (simp add: backoff_trace_Suc upt_rec[of rc])
qed

lemma rate_limit_checks_backoff_trace: "rate_limit_checks (backoff_trace rc n) = []"
proof (induction n arbitrary: rc)
  case 0
  show ?case by (simp add: backoff_trace_0)
next
  case (Suc n)
  show ?case using Suc[of "Suc rc"] by (simp add: backoff_trace_Suc)
qed

lemma retry_trace:
  "snd (retryWithExponentialBackoff this operation rc) =
     backoff_trace rc (length (sleeps (snd (retryWithExponentialBackoff this operation rc))))"
proof (induction this operation rc rule: retryWithExponentialBackoff.induct)
  case (1 this operation retryCount)
  show ?case
  proof (cases "operation retryCount")
    case (Inr v)
    then show ?thesis by (simp add: retry_returns backoff_trace_0)
  next
    case (Inl e)
    show ?thesis
    proof (cases "retryCount \<ge> maxRetries this")
      case True
      with Inl show ?thesis by (simp add: retry_gives_up backoff_trace_0)
    next
      case False
      then have lt: "retryCount < maxRetries this" by simp
      have IH: "snd (retryWithExponentialBackoff this operation (Suc retryCount)) =
        backoff_trace (Suc retryCount)
          (length (sleeps (snd (retryWithExponentialBackoff this operation (Suc retryCount)))))"
        using 1[OF Inl False refl] by simp
      show ?thesis
        using retry_again[of operation retryCount e this] Inl lt IH
        by (simp add: backoff_trace_Suc)
    qed
  qed
qed

lemma retry_all_fail_from:
  "n \<le> maxRetries this \<Longrightarrow>
   retryWithExponentialBackoff this (\<lambda>k. Inl (e k)) (maxRetries this - n) =
     (Inl (e (maxRetries this)), backoff_trace (maxRetries this - n) n)"
proof (induction n)
  case 0
  then show ?case by (simp add: retry_gives_up backoff_trace_0)
next
  case (Suc n)
  then have lt: "maxRetries this - Suc n < maxRetries this" by simp
  have nxt: "Suc (maxRetries this - Suc n) = maxRetries this - n" using Suc(2) by simp
  have le: "n \<le> maxRetries this" using Suc(2) by simp
  show ?case
    apply (subst retry_again[where e = "e (maxRetries this - Suc n)"])
      apply simp
     apply (rule lt)
    apply (simp add: nxt backoff_trace_Suc Suc.IH[OF le])
    done
qed

lemma retry_all_fail:
  "retryWithExponentialBackoff this (\<lambda>k. Inl (e k)) 0 =
     (Inl (e (maxRetries this)), backoff_trace 0 (maxRetries this))"
  using retry_all_fail_from[of "maxRetries this" this e] by simp

lemma retry_delay_eq: "retry_delay k = min (1000 * 2 ^ k) 8000"
  by (simp add: retry_delay_def INITIAL_RETRY_DELAY_def BACKOFF_FACTOR_def MAX_RETRY_DELAY_def)

lemma retry_delay_first_five: "map retry_delay [0..<5] = [1000, 2000, 4000, 8000, 8000]"
  by (simp add: retry_delay_eq upt_rec numeral_eq_Suc)

text \<open>
  Claim C4. The sleep before the re-invocation at retry count k + 1 lasts
  min (1000 * 2^k, 8000) milliseconds, with nothing added: the trace of a retry loop is
  invocation 0, that sleep for k = 0, invocation 1, the sleep for k = 1, and so on up to
  the last invocation. With five retries of an operation that always fails the sleeps
  are 1000, 2000, 4000, 8000, 8000.
\<close>

theorem backoff_delays:
  "snd (retryWithExponentialBackoff this operation 0) =
     concat (map (\<lambda>k. [Invoke k, Sleep (min (1000 * 2 ^ k) 8000)])
        [0..<length (sleeps (snd (retryWithExponentialBackoff this operation 0)))])
     @ [Invoke (length (sleeps (snd (retryWithExponentialBackoff this operation 0))))]
   \<and> sleeps (snd (retryWithExponentialBackoff (this\<lparr>maxRetries := 5\<rparr>) (\<lambda>k. Inl (e k)) 0)) =
       [1000, 2000, 4000, 8000, 8000]"
proof
  show "snd (retryWithExponentialBackoff this operation 0) =
     concat (map (\<lambda>k. [Invoke k, Sleep (min (1000 * 2 ^ k) 8000)])
        [0..<length (sleeps (snd (retryWithExponentialBackoff this operation 0)))])
     @ [Invoke (length (sleeps (snd (retryWithExponentialBackoff this operation 0))))]"
    using retry_trace[of this operation 0]
    by (simp add: backoff_trace_def retry_delay_eq)
next
  have "sleeps (snd (retryWithExponentialBackoff (this\<lparr>maxRetries := 5\<rparr>) (\<lambda>k. Inl (e k)) 0)) =
        map retry_delay [0..<5]"
    by (simp add: retry_all_fail sleeps_backoff_trace)
  then show "sleeps (snd (retryWithExponentialBackoff (this\<lparr>maxRetries := 5\<rparr>) (\<lambda>k. Inl (e k)) 0)) =
       [1000, 2000, 4000, 8000, 8000]"
    by (simp only: retry_delay_first_five)
qed

text \<open>
  Claim C5, as amended. An operation that fails on every attempt is invoked exactly
  maxRetries + 1 times, at retry counts 0 to maxRetries, and the loop then rethrows the
  error of the last attempt as it is: the error is not swallowed, and it is not wrapped
  in an ExhaustedRetries error.
\<close>

theorem exhausted_retries_rethrow_last_error:
  "fst (retryWithExponentialBackoff this (\<lambda>k. Inl (e k)) 0) = Inl (e (maxRetries this))
   \<and> invocations (snd (retryWithExponentialBackoff this (\<lambda>k. Inl (e k)) 0)) = [0..<Suc (maxRetries this)]
   \<and> length (invocations (snd (retryWithExponentialBackoff this (\<lambda>k. Inl (e k)) 0))) = maxRetries this + 1"
  by (simp add: retry_all_fail invocations_backoff_trace)

text \<open>
  The claim as written fails: with the default three retries a request that is always
  rejected with a RateLimitError reaches the caller as that RateLimitError, after four
  invocations; there is no ExhaustedRetries error.
\<close>

theorem exhausted_retries_counterexample:
  "fst (retryWithExponentialBackoff (new_OpenAIService None) always_rejected 0) =
     Inl (JSError ''RateLimitError'' ''429 Too Many Requests'' None)
   \<and> error_name (JSError ''RateLimitError'' ''429 Too Many Requests'' None) \<noteq> ''ExhaustedRetries''
   \<and> invocations (snd (retryWithExponentialBackoff (new_OpenAIService None) always_rejected 0)) = [0, 1, 2, 3]"
proof -
  have f: "always_rejected = (\<lambda>k. Inl (JSError ''RateLimitError'' ''429 Too Many Requests'' None))"
    by (rule ext) simp
  have m: "maxRetries (new_OpenAIService None) = 3"
    by (simp add: new_OpenAIService_def MAX_RETRIES_def)
  show ?thesis
    unfolding f
    by (simp add: retry_all_fail invocations_backoff_trace m upt_rec numeral_eq_Suc)
qed

section \<open>The rate limiter\<close>

lemma handleRateLimit_trace:
  "fst (handleRateLimit type tokens now this) =
     (if token_count type this + tokens > TOKENS_PER_MINUTE type
      then [RateLimit type tokens, Sleep (60000 - (now - last_time type this))]
      else [RateLimit type tokens])"
  by (simp add: handleRateLimit_def Let_def)











section \<open>Rate limiting and retrying together\<close>

lemma generateSummary_trace:
  "fst (snd (generateSummary content now api this)) =
     fst (handleRateLimit COMPLETIONS (estimateTokens content + 100) now this) @
     snd (retryWithExponentialBackoff
            (snd (handleRateLimit COMPLETIONS (estimateTokens content + 100) now this))
            (\<lambda>k. case api k of Inl e \<Rightarrow> Inl e | Inr c \<Rightarrow> Inr (content_or_empty c)) 0)"
  by (simp add: generateSummary_def Let_def split_beta)

lemma generateSummary_state:
  "snd (snd (generateSummary content now api this)) =
     snd (handleRateLimit COMPLETIONS (estimateTokens content + 100) now this)"
  by (simp add: generateSummary_def Let_def split_beta)

lemma rate_limit_checks_append:
  "rate_limit_checks (xs @ ys) = rate_limit_checks xs @ rate_limit_checks ys"
  by (induction xs rule: rate_limit_checks.induct) simp_all

lemma rate_limit_checks_retry:
  "rate_limit_checks (snd (retryWithExponentialBackoff this operation rc)) = []"
  by (subst retry_trace) (rule rate_limit_checks_backoff_trace)

text \<open>
  Claim C7, as amended. A call of generateSummary passes through the rate-limit check
  exactly once, first of all and before the first attempt. What follows the check
  holds no other check: a retry is preceded by its backoff sleep only. The token
  counters and window times the call leaves behind are those of that one check,
  whatever the remote service answers and however many attempts are made.
\<close>

theorem rate_limit_once_per_call:
  "rate_limit_checks (fst (snd (generateSummary content now api this))) =
     [RateLimit COMPLETIONS (estimateTokens content + 100)]
   \<and> hd (fst (snd (generateSummary content now api this))) =
       RateLimit COMPLETIONS (estimateTokens content + 100)
   \<and> rate_limit_checks (tl (fst (snd (generateSummary content now api this)))) = []
   \<and> snd (snd (generateSummary content now api this)) =
       snd (handleRateLimit COMPLETIONS (estimateTokens content + 100) now this)
   \<and> snd (snd (generateSummary content now api this)) =
       snd (snd (generateSummary content now api' this))"
  by (simp add: generateSummary_trace generateSummary_state handleRateLimit_trace
        rate_limit_checks_append rate_limit_checks_retry)

text \<open>
  The claim as written fails: when the first request is rejected and the second
  answered, the operation is invoked twice after a single rate-limit check, and the
  counter is charged once, with the 102 tokens estimated for the call.
\<close>

theorem retry_bypasses_rate_limit_counterexample:
  "fst (snd (generateSummary ''hello'' 1700000000000 rejected_once (new_OpenAIService None))) =
     [RateLimit COMPLETIONS 102, Invoke 0, Sleep 1000, Invoke 1]
   \<and> fst (generateSummary ''hello'' 1700000000000 rejected_once (new_OpenAIService None)) =
       Inr ''A short summary.''
   \<and> completionsTokens (snd (snd (generateSummary ''hello'' 1700000000000 rejected_once (new_OpenAIService None))))
       = 102"
  by (simp add: generateSummary_def handleRateLimit_def new_OpenAIService_def estimateTokens_def
        token_count_def last_time_def reset_tokens_def MAX_RETRIES_def Let_def
        retryWithExponentialBackoff.simps retry_delay_eq content_or_empty_def)

section \<open>Saving the checkpoint document\<close>

lemma writeJSON_document_path:
  "writeJSON data (JDocument m) pretty w = (Inl save_error, w)"
  by (simp add: writeJSON_def RuntimeError_def save_error_def)



lemma saveMetadata_Some:
  "metadata s = Some (JDocument m) \<Longrightarrow>
   saveMetadata now s =
     (Inl save_error, s\<lparr>metadata := Some (JDocument (m\<lparr>lastUpdated := now\<rparr>))\<rparr>)"
  by (simp add: saveMetadata_def writeJSON_document_path)




lemma parents_data: "parents [] ''data'' = []"
  by simp



lemma three_notes_eq:
  "three_notes =
     \<lparr>metadata = Some (JDocument (new_metadata 3 0)),
      fs = \<lparr>files = Map.empty, dirs = {''data''}, denied = {}, fs_log = [Mkdir ''./data'']\<rparr>\<rparr>"
  by (simp add: three_notes_def initialize_def new_CheckpointManager_def empty_world_def
        ensureDirectory_def directoryExists_def access_def mkdir_def fileExists_def normalize_def
        parents_data CHECKPOINT_FULL_PATH_def CHECKPOINT_DIRECTORY_def saveMetadata_Some
        new_metadata_def)

lemma three_notes_metadata: "metadata three_notes = Some (JDocument (new_metadata 3 0))"
  by (simp add: three_notes_eq)





section \<open>The stage operations on an initialized manager\<close>

lemma startStage_Some:
  "metadata s = Some (JDocument m) \<Longrightarrow>
   startStage stage now s =
     (if status (stages m stage) = IN_PROGRESS then (Inr (), s)
      else (Inl save_error,
            s\<lparr>metadata := Some (JDocument (m\<lparr>stages := (stages m)(stage := (stages m stage)
                  \<lparr>status := IN_PROGRESS, startTime := Some now, error := None\<rparr>),
                  lastUpdated := now\<rparr>))\<rparr>))"
  by (simp add: startStage_def saveMetadata_Some set_stage_def Let_def)

lemma updateNoteProgress_Some:
  "metadata s = Some (JDocument m) \<Longrightarrow>
   updateNoteProgress stage noteId success now s =
     (Inl save_error,
      s\<lparr>metadata := Some (JDocument (m\<lparr>stages := (stages m)(stage := (stages m stage)
            \<lparr>processedNoteIds :=
               (if success \<and> noteId \<notin> set (processedNoteIds (stages m stage))
                then processedNoteIds (stages m stage) @ [noteId]
                else processedNoteIds (stages m stage)),
             failedNoteIds :=
               (if \<not> success \<and> noteId \<notin> set (failedNoteIds (stages m stage))
                then failedNoteIds (stages m stage) @ [noteId]
                else failedNoteIds (stages m stage)),
             lastProcessedTime := Some now\<rparr>),
            lastUpdated := now\<rparr>))\<rparr>)"
  by (simp add: updateNoteProgress_def saveMetadata_Some set_stage_def Let_def
        array_includes_def array_push_def)

lemma completeStage_Some:
  "metadata s = Some (JDocument m) \<Longrightarrow>
   completeStage stage now s =
     (Inl save_error,
      s\<lparr>metadata := Some (JDocument (m\<lparr>stages := (stages m)(stage := (stages m stage)
            \<lparr>status := COMPLETED, completionTime := Some now\<rparr>),
            lastUpdated := now\<rparr>))\<rparr>)"
  by (simp add: completeStage_def saveMetadata_Some set_stage_def Let_def)

lemma failStage_Some:
  "metadata s = Some (JDocument m) \<Longrightarrow>
   failStage stage err now s =
     (Inl save_error,
      s\<lparr>metadata := Some (JDocument (m\<lparr>stages := (stages m)(stage := (stages m stage)
            \<lparr>status := FAILED, error := Some err\<rparr>),
            lastUpdated := now\<rparr>))\<rparr>)"
  by (simp add: failStage_def saveMetadata_Some set_stage_def Let_def)

lemmas stage_ops_Some = startStage_Some updateNoteProgress_Some completeStage_Some failStage_Some

section \<open>Settled ids\<close>

lemma perform_ids:
  assumes "metadata s = Some (JDocument m)"
  shows "\<exists>m'. metadata (snd (perform c now s)) = Some (JDocument m') \<and>
           set (processedNoteIds (stages m' stage)) =
             set (processedNoteIds (stages m stage)) \<union> set (reported stage True [(now, c)]) \<and>
           set (failedNoteIds (stages m' stage)) =
             set (failedNoteIds (stages m stage)) \<union> set (reported stage False [(now, c)])"
proof (cases c)
  case (StartStage st)
  then show ?thesis using assms by (simp add: startStage_Some)
next
  case (UpdateNoteProgress st noteId success)
  then show ?thesis using assms by (auto simp: updateNoteProgress_Some)
next
  case (CompleteStage st)
  then show ?thesis using assms by (simp add: completeStage_Some)
next
  case (FailStage st err)
  then show ?thesis using assms by (simp add: failStage_Some)
qed

lemma reported_Cons:
  "set (reported stage b ((now, c) # cs)) =
     set (reported stage b [(now, c)]) \<union> set (reported stage b cs)"
  by (cases c) auto

lemma run_calls_ids:
  "metadata s = Some (JDocument m) \<Longrightarrow>
   \<exists>m'. metadata (run_calls cs s) = Some (JDocument m') \<and>
           set (processedNoteIds (stages m' stage)) =
             set (processedNoteIds (stages m stage)) \<union> set (reported stage True cs) \<and>
           set (failedNoteIds (stages m' stage)) =
             set (failedNoteIds (stages m stage)) \<union> set (reported stage False cs)"
proof (induction cs arbitrary: s m)
  case Nil
  then show ?case by simp
next
  case (Cons a cs)
  obtain now c where a: "a = (now, c)" by (cases a)
  from perform_ids[OF Cons.prems, of c now stage] obtain m1 where
    m1: "metadata (snd (perform c now s)) = Some (JDocument m1)"
    and p1: "set (processedNoteIds (stages m1 stage)) =
             set (processedNoteIds (stages m stage)) \<union> set (reported stage True [(now, c)])"
    and f1: "set (failedNoteIds (stages m1 stage)) =
             set (failedNoteIds (stages m stage)) \<union> set (reported stage False [(now, c)])"
    by blast
  from Cons.IH[OF m1] obtain m' where
    m': "metadata (run_calls cs (snd (perform c now s))) = Some (JDocument m')"
    and p': "set (processedNoteIds (stages m' stage)) =
             set (processedNoteIds (stages m1 stage)) \<union> set (reported stage True cs)"
    and f': "set (failedNoteIds (stages m' stage)) =
             set (failedNoteIds (stages m1 stage)) \<union> set (reported stage False cs)"
    by blast
  show ?case
    unfolding a using m' p' f' p1 f1
    by (simp add: reported_Cons[of stage _ now c cs] Un_assoc)
qed

text \<open>
  Claim C1, as amended. On an initialized manager, after any sequence of startStage,
  updateNoteProgress, completeStage and failStage calls, processedNoteIds of a stage
  holds the ids it held before and those reported with success = true, and
  failedNoteIds those it held before and those reported with success = false:
  updateNoteProgress only appends, it never takes an id out of the other array. So the
  two arrays are disjoint afterwards exactly when no id is on both sides, and they stay
  disjoint as long as no id is reported with both outcomes.
\<close>

theorem settled_ids_disjoint:
  assumes "metadata s = Some (JDocument m)"
  shows "\<exists>m'. metadata (run_calls cs s) = Some (JDocument m') \<and>
           set (processedNoteIds (stages m' stage)) =
             set (processedNoteIds (stages m stage)) \<union> set (reported stage True cs) \<and>
           set (failedNoteIds (stages m' stage)) =
             set (failedNoteIds (stages m stage)) \<union> set (reported stage False cs) \<and>
           (set (processedNoteIds (stages m' stage)) \<inter> set (failedNoteIds (stages m' stage)) = {}
            \<longleftrightarrow>
            set (processedNoteIds (stages m stage) @ reported stage True cs) \<inter>
            set (failedNoteIds (stages m stage) @ reported stage False cs) = {})"
  using run_calls_ids[OF assms, of cs stage] by auto

lemma scenario_stage:
  "stage_of RAW_EXPORT scenario =
     Some \<lparr>status = IN_PROGRESS, processedNoteIds = [''0''], failedNoteIds = [''1''],
           startTime = Some 1, completionTime = None, lastProcessedTime = Some 3, error = None\<rparr>"
  by (simp add: scenario_def three_notes_eq stage_ops_Some new_metadata_def new_stage_def
        stage_of_def document_def)

lemma scenario_total: "map_option totalNotes (document scenario) = Some 3"
  by (simp add: scenario_def three_notes_eq stage_ops_Some new_metadata_def new_stage_def
        document_def)

theorem settled_ids_disjoint_witness:
  "metadata three_notes = Some (JDocument (new_metadata 3 0))
   \<and> set (processedNoteIds (stages (new_metadata 3 0) RAW_EXPORT) @
          reported RAW_EXPORT True
            [(1, StartStage RAW_EXPORT),
             (2, UpdateNoteProgress RAW_EXPORT ''0'' True),
             (3, UpdateNoteProgress RAW_EXPORT ''1'' False)]) \<inter>
       set (failedNoteIds (stages (new_metadata 3 0) RAW_EXPORT) @
          reported RAW_EXPORT False
            [(1, StartStage RAW_EXPORT),
             (2, UpdateNoteProgress RAW_EXPORT ''0'' True),
             (3, UpdateNoteProgress RAW_EXPORT ''1'' False)]) = {}
   \<and> (\<exists>m'. metadata scenario = Some (JDocument m') \<and>
          set (processedNoteIds (stages m' RAW_EXPORT)) = {''0''} \<and>
          set (failedNoteIds (stages m' RAW_EXPORT)) = {''1''} \<and>
          set (processedNoteIds (stages m' RAW_EXPORT)) \<inter> set (failedNoteIds (stages m' RAW_EXPORT)) = {})"
  using settled_ids_disjoint[OF three_notes_metadata,
          of "[(1, StartStage RAW_EXPORT),
               (2, UpdateNoteProgress RAW_EXPORT ''0'' True),
               (3, UpdateNoteProgress RAW_EXPORT ''1'' False)]" RAW_EXPORT]
  by (simp add: three_notes_metadata new_metadata_def new_stage_def scenario_def)

text \<open>
  The claim as written fails: note 0 reported failed and then reported processed is in
  both arrays.
\<close>

theorem settled_ids_counterexample:
  "stage_of RAW_EXPORT
     (run_calls
        [(1, UpdateNoteProgress RAW_EXPORT ''0'' False),
         (2, UpdateNoteProgress RAW_EXPORT ''0'' True)]
        three_notes) =
     Some \<lparr>status = NOT_STARTED, processedNoteIds = [''0''], failedNoteIds = [''0''],
           startTime = None, completionTime = None, lastProcessedTime = Some 2, error = None\<rparr>"
  by (simp add: three_notes_eq stage_ops_Some new_metadata_def new_stage_def stage_of_def document_def)

section \<open>The next pending note\<close>

declare next_note_loop.simps [simp del]

declare toString.simps [simp del]

lemma next_note_loop_past_end: "\<not> int i < n \<Longrightarrow> next_note_loop n sp i = None"
  by (subst next_note_loop.simps) simp

lemma next_note_loop_found:
  "int i < n \<Longrightarrow> \<not> settled sp i \<Longrightarrow> next_note_loop n sp i = Some (toString i)"
  by (subst next_note_loop.simps) (simp add: settled_def array_includes_def Let_def)

lemma next_note_loop_skip:
  "int i < n \<Longrightarrow> settled sp i \<Longrightarrow> next_note_loop n sp i = next_note_loop n sp (Suc i)"
  by (subst next_note_loop.simps) (auto simp: settled_def array_includes_def Let_def)

lemma next_note_loop_None_iff:
  "next_note_loop n sp i = None \<longleftrightarrow> (\<forall>j\<ge>i. int j < n \<longrightarrow> settled sp j)"
proof (induction n sp i rule: next_note_loop.induct)
  case (1 n sp i)
  show ?case
  proof (cases "int i < n")
    case False
    then have "\<And>j. i \<le> j \<Longrightarrow> \<not> int j < n" by simp
    with False show ?thesis by (simp add: next_note_loop_past_end)
  next
    case True
    show ?thesis
    proof (cases "settled sp i")
      case False
      with True show ?thesis by (auto simp: next_note_loop_found)
    next
      case settled_i: True
      then have "\<not> (\<not> array_includes (processedNoteIds sp) (toString i) \<and>
                    \<not> array_includes (failedNoteIds sp) (toString i))"
        by (simp add: settled_def array_includes_def)
      from 1[OF True refl this]
      have IH: "next_note_loop n sp (Suc i) = None \<longleftrightarrow> (\<forall>j\<ge>Suc i. int j < n \<longrightarrow> settled sp j)" .
      have "(\<forall>j\<ge>i. int j < n \<longrightarrow> settled sp j) \<longleftrightarrow> (\<forall>j\<ge>Suc i. int j < n \<longrightarrow> settled sp j)"
      proof
        assume "\<forall>j\<ge>i. int j < n \<longrightarrow> settled sp j"
        then show "\<forall>j\<ge>Suc i. int j < n \<longrightarrow> settled sp j" by simp
      next
        assume h: "\<forall>j\<ge>Suc i. int j < n \<longrightarrow> settled sp j"
        show "\<forall>j\<ge>i. int j < n \<longrightarrow> settled sp j"
        proof (intro allI impI)
          fix j assume "i \<le> j" "int j < n"
          then show "settled sp j"
            using h settled_i by (cases "j = i") auto
        qed
      qed
      with IH True settled_i show ?thesis by (simp add: next_note_loop_skip)
    qed
  qed
qed

lemma next_note_loop_Some:
  "next_note_loop n sp i = Some x \<Longrightarrow>
   \<exists>k\<ge>i. x = toString k \<and> int k < n \<and> \<not> settled sp k \<and> (\<forall>j. i \<le> j \<and> j < k \<longrightarrow> settled sp j)"
proof (induction n sp i rule: next_note_loop.induct)
  case (1 n sp i)
  show ?case
  proof (cases "int i < n")
    case False
    with 1(2) show ?thesis by (simp add: next_note_loop_past_end)
  next
    case True
    show ?thesis
    proof (cases "settled sp i")
      case False
      with True 1(2) have "x = toString i" by (simp add: next_note_loop_found)
      with True False show ?thesis by auto
    next
      case settled_i: True
      then have c: "\<not> (\<not> array_includes (processedNoteIds sp) (toString i) \<and>
                    \<not> array_includes (failedNoteIds sp) (toString i))"
        by (simp add: settled_def array_includes_def)
      from 1(2) True settled_i have "next_note_loop n sp (Suc i) = Some x"
        by (simp add: next_note_loop_skip)
      from 1(1)[OF True refl c this] obtain k where
        k: "Suc i \<le> k" "x = toString k" "int k < n" "\<not> settled sp k"
           "\<forall>j. Suc i \<le> j \<and> j < k \<longrightarrow> settled sp j"
        by blast
      have "\<forall>j. i \<le> j \<and> j < k \<longrightarrow> settled sp j"
      proof (intro allI impI)
        fix j assume "i \<le> j \<and> j < k"
        then show "settled sp j" using k(5) settled_i by (cases "j = i") auto
      qed
      with k show ?thesis by (intro exI[of _ k]) simp
    qed
  qed
qed

lemma toString_0: "toString 0 = ''0''"
  by (simp add: toString.simps[of 0] digit_def)

lemma toString_1: "toString (Suc 0) = ''1''"
  by (simp add: toString.simps[of "Suc 0"] digit_def)

lemma toString_2: "toString 2 = ''2''"
  by (simp add: toString.simps[of 2] digit_def)

text \<open>
  Claim C2. On an initialized manager with totalNotes = n, getNextNoteForStage returns,
  without changing anything, the decimal string of the smallest index below n whose
  string is in neither processedNoteIds nor failedNoteIds of the stage, and it returns
  null exactly when every index below n is settled. In the worked scenario (three
  notes, 0 processed, 1 failed) it returns 2.
\<close>

theorem next_note_is_least_unsettled:
  assumes "metadata s = Some (JDocument m)"
  shows "(\<exists>r. getNextNoteForStage stage s = (Inr r, s) \<and>
           (r = None \<longleftrightarrow> (\<forall>i. int i < totalNotes m \<longrightarrow> settled (stages m stage) i)) \<and>
           (\<forall>x. r = Some x \<longrightarrow>
              (\<exists>i. x = toString i \<and> int i < totalNotes m \<and> \<not> settled (stages m stage) i \<and>
                   (\<forall>j<i. settled (stages m stage) j))))
         \<and> fst (getNextNoteForStage RAW_EXPORT scenario) = Inr (Some ''2'')"
proof
  let ?r = "next_note_loop (totalNotes m) (stages m stage) 0"
  have g: "getNextNoteForStage stage s = (Inr ?r, s)"
    using assms by (simp add: getNextNoteForStage_def)
  have n: "?r = None \<longleftrightarrow> (\<forall>i. int i < totalNotes m \<longrightarrow> settled (stages m stage) i)"
    by (simp add: next_note_loop_None_iff)
  have sm: "\<forall>x. ?r = Some x \<longrightarrow>
              (\<exists>i. x = toString i \<and> int i < totalNotes m \<and> \<not> settled (stages m stage) i \<and>
                   (\<forall>j<i. settled (stages m stage) j))"
  proof (intro allI impI)
    fix x assume "?r = Some x"
    from next_note_loop_Some[OF this] show
      "\<exists>i. x = toString i \<and> int i < totalNotes m \<and> \<not> settled (stages m stage) i \<and>
                   (\<forall>j<i. settled (stages m stage) j)"
      by auto
  qed
  show "\<exists>r. getNextNoteForStage stage s = (Inr r, s) \<and>
           (r = None \<longleftrightarrow> (\<forall>i. int i < totalNotes m \<longrightarrow> settled (stages m stage) i)) \<and>
           (\<forall>x. r = Some x \<longrightarrow>
              (\<exists>i. x = toString i \<and> int i < totalNotes m \<and> \<not> settled (stages m stage) i \<and>
                   (\<forall>j<i. settled (stages m stage) j)))"
    by (intro exI[of _ ?r] conjI g n sm)
next
  show "fst (getNextNoteForStage RAW_EXPORT scenario) = Inr (Some ''2'')"
    by (simp add: getNextNoteForStage_def scenario_def three_notes_eq stage_ops_Some
          new_metadata_def new_stage_def next_note_loop.simps array_includes_def
          toString.simps digit_def Let_def)
qed

theorem next_note_is_least_unsettled_witness:
  "metadata three_notes = Some (JDocument (new_metadata 3 0))
   \<and> getNextNoteForStage RAW_EXPORT three_notes = (Inr (Some ''0''), three_notes)
   \<and> \<not> settled (stages (new_metadata 3 0) RAW_EXPORT) 0
   \<and> fst (getNextNoteForStage RAW_EXPORT scenario) = Inr (Some ''2'')"
  using next_note_is_least_unsettled[OF three_notes_metadata, of RAW_EXPORT]
  by (simp add: three_notes_metadata getNextNoteForStage_def new_metadata_def new_stage_def
        next_note_loop.simps[of _ _ 0] array_includes_def toString_0 settled_def)

section \<open>Recording a note twice\<close>

text \<open>
  Claim C8 holds of the arrays and fails of the save. With note 0 already in
  processedNoteIds, updateNoteProgress(RAW_EXPORT, 0, true) leaves the array as it was and
  records lastProcessedTime; then saveMetadata passes the path where writeJSON expects
  the data and the document where it expects the path, writeFile rejects the document,
  and the call throws a JSONFileError with nothing written to the checkpoint file.
\<close>

theorem update_twice_throws_and_saves_nothing:
  "fst (updateNoteProgress RAW_EXPORT ''0'' True 4 scenario) = Inl save_error
   \<and> error_name save_error = ''JSONFileError''
   \<and> stage_of RAW_EXPORT (snd (updateNoteProgress RAW_EXPORT ''0'' True 4 scenario)) =
       Some \<lparr>status = IN_PROGRESS, processedNoteIds = [''0''], failedNoteIds = [''1''],
             startTime = Some 1, completionTime = None, lastProcessedTime = Some 4, error = None\<rparr>
   \<and> files (fs (snd (updateNoteProgress RAW_EXPORT ''0'' True 4 scenario))) CHECKPOINT_FULL_PATH = None
   \<and> fs_log (fs (snd (updateNoteProgress RAW_EXPORT ''0'' True 4 scenario))) = [Mkdir ''./data'']"
  by (simp add: scenario_def three_notes_eq stage_ops_Some new_metadata_def new_stage_def
        stage_of_def document_def save_error_def JSONFileError_def)

section \<open>Leaving COMPLETED\<close>

text \<open>
  Claim C9, as amended. On a stage whose status is COMPLETED, updateNoteProgress and
  completeStage leave the status COMPLETED, as does any call on another stage;
  startStage on that stage sets it to IN_PROGRESS with a new start time (its guard
  returns early only for IN_PROGRESS), and failStage on that stage sets it to FAILED.
\<close>

theorem completed_stage_transitions:
  assumes "metadata s = Some (JDocument m)" and "status (stages m stage) = COMPLETED"
  shows "\<exists>m'. metadata (snd (perform c now s)) = Some (JDocument m') \<and>
           status (stages m' stage) =
             (case c of
                StartStage st \<Rightarrow> if st = stage then IN_PROGRESS else COMPLETED
              | UpdateNoteProgress st noteId success \<Rightarrow> COMPLETED
              | CompleteStage st \<Rightarrow> COMPLETED
              | FailStage st err \<Rightarrow> if st = stage then FAILED else COMPLETED) \<and>
           (c = StartStage stage \<longrightarrow> startTime (stages m' stage) = Some now)"
  using assms by (cases c) (auto simp: stage_ops_Some)

lemma completed_scenario_stage:
  "stage_of RAW_EXPORT completed_scenario =
     Some \<lparr>status = COMPLETED, processedNoteIds = [''0''], failedNoteIds = [''1''],
           startTime = Some 1, completionTime = Some 4, lastProcessedTime = Some 3, error = None\<rparr>"
  by (simp add: completed_scenario_def scenario_def three_notes_eq stage_ops_Some
        new_metadata_def new_stage_def stage_of_def document_def)

lemma completed_scenario_metadata:
  "metadata completed_scenario = Some (JDocument (the (document completed_scenario)))"
  by (simp add: completed_scenario_def scenario_def three_notes_eq stage_ops_Some document_def)

lemma completed_scenario_status:
  "status (stages (the (document completed_scenario)) RAW_EXPORT) = COMPLETED"
proof -
  from completed_scenario_stage obtain m where
    d: "document completed_scenario = Some m" and
    st: "status (stages m RAW_EXPORT) = COMPLETED"
    by (cases "document completed_scenario") (simp_all add: stage_of_def)
  show ?thesis by (simp add: d st)
qed

theorem completed_stage_transitions_witness:
  "metadata completed_scenario = Some (JDocument (the (document completed_scenario)))
   \<and> status (stages (the (document completed_scenario)) RAW_EXPORT) = COMPLETED
   \<and> (\<exists>m'. metadata (snd (perform (FailStage RAW_EXPORT ''disk full'') 5 completed_scenario)) = Some (JDocument m') \<and>
           status (stages m' RAW_EXPORT) = FAILED)
   \<and> (\<exists>m'. metadata (snd (perform (UpdateNoteProgress RAW_EXPORT ''2'' True) 5 completed_scenario)) = Some (JDocument m') \<and>
           status (stages m' RAW_EXPORT) = COMPLETED)
   \<and> (\<exists>m'. metadata (snd (perform (StartStage RAW_EXPORT) 5 completed_scenario)) = Some (JDocument m') \<and>
           status (stages m' RAW_EXPORT) = IN_PROGRESS \<and> startTime (stages m' RAW_EXPORT) = Some 5)"
  using completed_stage_transitions[OF completed_scenario_metadata completed_scenario_status,
          of "FailStage RAW_EXPORT ''disk full''" 5]
        completed_stage_transitions[OF completed_scenario_metadata completed_scenario_status,
          of "StartStage RAW_EXPORT" 5]
        completed_stage_transitions[OF completed_scenario_metadata completed_scenario_status,
          of "UpdateNoteProgress RAW_EXPORT ''2'' True" 5]
        completed_scenario_metadata completed_scenario_status
  by simp

text \<open>
  The claim as written fails: startStage on the completed stage of the scenario sets
  its status back to IN_PROGRESS, with a new start time.
\<close>

theorem completed_stage_restart_counterexample:
  "stage_of RAW_EXPORT completed_scenario =
     Some \<lparr>status = COMPLETED, processedNoteIds = [''0''], failedNoteIds = [''1''],
           startTime = Some 1, completionTime = Some 4, lastProcessedTime = Some 3, error = None\<rparr>
   \<and> stage_of RAW_EXPORT (snd (startStage RAW_EXPORT 5 completed_scenario)) =
     Some \<lparr>status = IN_PROGRESS, processedNoteIds = [''0''], failedNoteIds = [''1''],
           startTime = Some 5, completionTime = Some 4, lastProcessedTime = Some 3, error = None\<rparr>"
  by (simp add: completed_scenario_def scenario_def three_notes_eq stage_ops_Some
        new_metadata_def new_stage_def stage_of_def document_def)

section \<open>Before the document exists\<close>

text \<open>
  Claim C10, as amended. While the manager's metadata field is null (on a new manager,
  and after an initialize that failed before assigning it), each of startStage,
  updateNoteProgress, completeStage, failStage, getStageProgress,
  getStageProgressPercentage, getNextNoteForStage, isStageComplete and getMetadata throws
  the error 'Checkpoint metadata not initialized' and leaves the manager and the disk
  as they were.
\<close>

theorem null_metadata_throws:
  assumes "metadata s = None"
  shows "startStage stage now s = (Inl (Error ''Checkpoint metadata not initialized''), s)
       \<and> updateNoteProgress stage noteId success now s = (Inl (Error ''Checkpoint metadata not initialized''), s)
       \<and> completeStage stage now s = (Inl (Error ''Checkpoint metadata not initialized''), s)
       \<and> failStage stage err now s = (Inl (Error ''Checkpoint metadata not initialized''), s)
       \<and> getStageProgress stage s = (Inl (Error ''Checkpoint metadata not initialized''), s)
       \<and> getStageProgressPercentage stage s = (Inl (Error ''Checkpoint metadata not initialized''), s)
       \<and> getNextNoteForStage stage s = (Inl (Error ''Checkpoint metadata not initialized''), s)
       \<and> isStageComplete stage s = (Inl (Error ''Checkpoint metadata not initialized''), s)
       \<and> getMetadata s = (Inl (Error ''Checkpoint metadata not initialized''), s)"
  using assms
  by (simp add: startStage_def updateNoteProgress_def completeStage_def failStage_def
        getStageProgress_def getStageProgressPercentage_def getNextNoteForStage_def
        isStageComplete_def getMetadata_def not_initialized_def)

theorem null_metadata_throws_witness:
  "metadata (new_CheckpointManager empty_world) = None
   \<and> startStage RAW_EXPORT 1 (new_CheckpointManager empty_world) =
       (Inl (Error ''Checkpoint metadata not initialized''), new_CheckpointManager empty_world)
   \<and> getNextNoteForStage RAW_EXPORT (new_CheckpointManager empty_world) =
       (Inl (Error ''Checkpoint metadata not initialized''), new_CheckpointManager empty_world)"
  using null_metadata_throws[of "new_CheckpointManager empty_world" RAW_EXPORT 1]
  by (simp add: new_CheckpointManager_def)

text \<open>
  The claim as written fails after an initialize that did not succeed: on an empty disk
  initialize(3) assigns the new document, its save throws, and initialize throws in its
  turn; the document stays, so getStageProgress returns and startStage changes the
  stage instead of throwing 'Checkpoint metadata not initialized'.
\<close>

theorem failed_initialize_counterexample:
  "fst (initialize 3 0 (new_CheckpointManager empty_world)) =
     Inl (Error ''Failed to initialize checkpoint: Error writing JSON to file [object Object]: ERR_INVALID_ARG_TYPE'')
   \<and> fst (getStageProgress RAW_EXPORT (snd (initialize 3 0 (new_CheckpointManager empty_world)))) =
       Inr new_stage
   \<and> stage_of RAW_EXPORT
       (snd (startStage RAW_EXPORT 1 (snd (initialize 3 0 (new_CheckpointManager empty_world))))) =
       Some (new_stage\<lparr>status := IN_PROGRESS, startTime := Some 1\<rparr>)"
proof -
  have i: "initialize 3 0 (new_CheckpointManager empty_world) =
     (Inl (Error ''Failed to initialize checkpoint: Error writing JSON to file [object Object]: ERR_INVALID_ARG_TYPE''),
      three_notes)"
    unfolding three_notes_eq
    by (simp add: initialize_def new_CheckpointManager_def empty_world_def
        ensureDirectory_def directoryExists_def access_def mkdir_def fileExists_def
        normalize_def parents_data
        CHECKPOINT_FULL_PATH_def CHECKPOINT_DIRECTORY_def saveMetadata_Some new_metadata_def
        initialize_catch_def save_error_def JSONFileError_def)
  show ?thesis
    unfolding i
    by (simp add: three_notes_eq getStageProgress_def stage_ops_Some new_metadata_def
          new_stage_def stage_of_def document_def)
qed

end
